theory Spec2Isabelle
  imports Main "HOL-Library.Monad_Syntax"
begin

section \<open>Go library functions on strings\<close>

text \<open>
  Go strings are byte sequences; they are modelled as \<^typ>\<open>string\<close> (a list of bytes).
  The functions below follow the documentation of package \<^verbatim>\<open>strings\<close> and \<^verbatim>\<open>strconv\<close>.
\<close>

fun Join :: "string list \<Rightarrow> string \<Rightarrow> string" where
  "Join [] sep = []"
| "Join [e] sep = e"
| "Join (e # e' # es) sep = e @ sep @ Join (e' # es) sep"

definition HasPrefix :: "string \<Rightarrow> string \<Rightarrow> bool" where
  "HasPrefix s pre = (take (length pre) s = pre)"

definition HasSuffix :: "string \<Rightarrow> string \<Rightarrow> bool" where
  "HasSuffix s suf = (length suf \<le> length s \<and> drop (length s - length suf) s = suf)"

text \<open>\<^verbatim>\<open>strings.Index\<close>: the index of the first instance of \<open>sub\<close>, or \<open>-1\<close>.\<close>

fun Index :: "string \<Rightarrow> string \<Rightarrow> int" where
  "Index [] sub = (if sub = [] then 0 else - 1)"
| "Index (c # cs) sub =
     (if HasPrefix (c # cs) sub then 0
      else (let r = Index cs sub in if r < 0 then - 1 else r + 1))"

definition Contains :: "string \<Rightarrow> string \<Rightarrow> bool" where
  "Contains s sub = (Index s sub \<ge> 0)"

text \<open>\<^verbatim>\<open>strings.LastIndex\<close>: the index of the last instance of \<open>sub\<close>, or \<open>-1\<close>.\<close>

definition LastIndex :: "string \<Rightarrow> string \<Rightarrow> int" where
  "LastIndex s sub =
     (let r = Index (rev s) (rev sub)
      in if r < 0 then - 1 else int (length s) - int (length sub) - r)"

definition IndexByte :: "string \<Rightarrow> char \<Rightarrow> int" where
  "IndexByte s c = Index s [c]"

text \<open>\<^verbatim>\<open>strings.IndexAny\<close>: the index of the first byte of \<open>s\<close> that is in \<open>chars\<close>, or \<open>-1\<close>.\<close>

fun IndexAny :: "string \<Rightarrow> string \<Rightarrow> int" where
  "IndexAny [] chars = - 1"
| "IndexAny (c # cs) chars =
     (if c \<in> set chars then 0
      else (let r = IndexAny cs chars in if r < 0 then - 1 else r + 1))"

text \<open>\<^verbatim>\<open>strings.TrimRight\<close>: all trailing bytes contained in the cutset are removed.\<close>

definition TrimRight :: "string \<Rightarrow> string \<Rightarrow> string" where
  "TrimRight s cutset = rev (dropWhile (\<lambda>c. c \<in> set cutset) (rev s))"

text \<open>\<^verbatim>\<open>strings.Repeat\<close> panics on a negative count.\<close>

definition Repeat :: "string \<Rightarrow> int \<Rightarrow> string option" where
  "Repeat s count = (if count < 0 then None else Some (concat (replicate (nat count) s)))"

text \<open>\<^verbatim>\<open>strings.SplitN(s, sep, 2)\<close> for a non-empty separator: at most two parts.\<close>

definition SplitN2 :: "string \<Rightarrow> string \<Rightarrow> string list" where
  "SplitN2 s sep =
     (let i = Index s sep
      in if i < 0 then [s] else [take (nat i) s, drop (nat i + length sep) s])"

text \<open>\<^verbatim>\<open>strconv.Itoa\<close>: the decimal representation.\<close>

definition digit :: "nat \<Rightarrow> char" where
  "digit d = ''0123456789'' ! d"

fun digits :: "nat \<Rightarrow> string" where
  "digits n = (if n < 10 then [digit n] else digits (n div 10) @ [digit (n mod 10)])"

declare digits.simps [simp del]

definition Itoa :: "int \<Rightarrow> string" where
  "Itoa i = (if i < 0 then ''-'' @ digits (nat (- i)) else digits (nat i))"


text \<open>
  \<^verbatim>\<open>strings.TrimSpace\<close>: leading and trailing white space is removed. The ASCII white
  space bytes are modelled; the white space runes beyond ASCII are not.
\<close>

definition isSpace :: "char \<Rightarrow> bool" where
  "isSpace c = (c \<in> {CHR 0x09, CHR 0x0A, CHR 0x0B, CHR 0x0C, CHR 0x0D, CHR '' ''})"

definition TrimSpace :: "string \<Rightarrow> string" where
  "TrimSpace s = rev (dropWhile isSpace (rev (dropWhile isSpace s)))"

section \<open>Declarations of package printer\<close>

text \<open>
  \<^verbatim>\<open>NIL\<close>, \<^verbatim>\<open>NULL\<close> and \<^verbatim>\<open>IOTA\<close> are declared in \<^verbatim>\<open>printer/cprinter.go\<close>.
  \<^verbatim>\<open>NL\<close>, \<^verbatim>\<open>UP\<close> and \<^verbatim>\<open>DOWN\<close> are taken from the constant block of the command-line
  program of the repository (\<^verbatim>\<open>NL = "\n"\<close>, \<^verbatim>\<open>UP = +1\<close>, \<^verbatim>\<open>DOWN = -1\<close>).
\<close>

definition NIL :: string where "NIL = ''nil''"
definition NULL :: string where "NULL = ''nullptr''"
definition IOTA :: string where "IOTA = ''iota''"
definition NL :: string where "NL = [CHR 0x0A]"
definition UP :: int where "UP = 1"
definition DOWN :: int where "DOWN = - 1"

text \<open>
  The terminator constants \<^verbatim>\<open>NONE\<close>, \<^verbatim>\<open>SEMI\<close>, \<^verbatim>\<open>COMMA\<close> and \<^verbatim>\<open>COLON\<close> are declared in a
  file of package printer that is not part of the sources at hand; they are parameters of
  the model. So is \<^verbatim>\<open>fmt.Sprintf\<close> applied to a format string computed at run time
  (\<^verbatim>\<open>fmt.Sprintf(value, name)\<close>), whose verbs are not interpreted here.
\<close>

record Decls =
  NONE :: string
  SEMI :: string
  COMMA :: string
  COLON :: string
  Sprintf1 :: "string \<Rightarrow> string \<Rightarrow> string"

text \<open>
  The enumerations \<^verbatim>\<open>BlockType\<close> and \<^verbatim>\<open>FieldType\<close>: the members the C printer names, and
  one member standing for any other block type
  (\<^verbatim>\<open>CONST\<close> is a reserved word of the logic, hence the prefix).
\<close>

datatype BlockType = BT_CONST | BT_VAR | BT_CODE | BT_OTHER

datatype FieldType = METHOD | RESULT | PARAM | FIELD

text \<open>The interface \<^verbatim>\<open>Pair\<close> with its two methods \<^verbatim>\<open>Name()\<close> and \<^verbatim>\<open>Value()\<close>.\<close>

record Pair =
  Name :: string
  Value :: string

section \<open>The C printer: emission context\<close>

text \<open>
  \<^verbatim>\<open>printer/cprinter.go\<close>: the struct \<^verbatim>\<open>CContext\<close> holds the state of one function
  block. The Go field \<^verbatim>\<open>next\<close> links the contexts into a chain; the chain is modelled
  as a list whose head is \<^verbatim>\<open>p.ctx\<close>, and the nil pointer is the empty list. The counters
  are Go \<^verbatim>\<open>int\<close>s (64 bits); they start at 0 and grow by one per statement printed, so
  they are modelled as unbounded integers.
\<close>

record CContext =
  iota :: int
  deferred :: int
  receiver :: string
  ret_definitions :: string
  ret_values :: string

text \<open>The zero value \<^verbatim>\<open>CContext{}\<close> that \<^verbatim>\<open>PushContext\<close> allocates.\<close>

definition new_CContext :: CContext where
  "new_CContext =
     \<lparr>iota = 0, deferred = 0, receiver = [], ret_definitions = [], ret_values = []\<rparr>"

text \<open>
  \<^verbatim>\<open>func (ctx *CContext) Selector(s string) string\<close>: the receiver pointer may be nil,
  so the argument is an optional context.
\<close>

definition Selector :: "CContext option \<Rightarrow> string \<Rightarrow> string" where
  "Selector c s =
     (case c of
        Some cx \<Rightarrow> if receiver cx = s then ''this->'' else s @ ''.''
      | None \<Rightarrow> s @ ''.'')"

section \<open>The C printer: state and output\<close>

text \<open>
  \<^verbatim>\<open>CPrinter\<close>: indentation level, the same-line flag, the writer (modelled as the
  text written to it so far) and the context chain. A method that can panic (a nil
  context dereferenced, an index out of range, \<^verbatim>\<open>strings.Repeat\<close> with a negative count)
  returns \<open>None\<close> where it panics.
\<close>

record CPrinter =
  level :: int
  sameline :: bool
  writer :: string
  ctx :: "CContext list"

text \<open>The pointer \<^verbatim>\<open>p.ctx\<close>: the head of the chain, or nil.\<close>

definition top_ctx :: "CPrinter \<Rightarrow> CContext option" where
  "top_ctx p = (case ctx p of [] \<Rightarrow> None | c # _ \<Rightarrow> Some c)"

text \<open>An assignment to a field of \<^verbatim>\<open>*p.ctx\<close>; a nil \<^verbatim>\<open>p.ctx\<close> panics.\<close>

definition upd_ctx :: "(CContext \<Rightarrow> CContext) \<Rightarrow> CPrinter \<Rightarrow> CPrinter option" where
  "upd_ctx f p = (case ctx p of [] \<Rightarrow> None | c # rest \<Rightarrow> Some (p\<lparr>ctx := f c # rest\<rparr>))"

definition Reset :: "CPrinter \<Rightarrow> CPrinter" where
  "Reset p = p\<lparr>level := 0, sameline := False, ctx := []\<rparr>"

definition PushContext :: "CPrinter \<Rightarrow> CPrinter" where
  "PushContext p = p\<lparr>ctx := new_CContext # ctx p\<rparr>"

definition PopContext :: "CPrinter \<Rightarrow> CPrinter option" where
  "PopContext p = (case ctx p of [] \<Rightarrow> None | _ # rest \<Rightarrow> Some (p\<lparr>ctx := rest\<rparr>))"

definition UpdateLevel :: "int \<Rightarrow> CPrinter \<Rightarrow> CPrinter" where
  "UpdateLevel delta p = p\<lparr>level := level p + delta\<rparr>"

definition SameLine :: "CPrinter \<Rightarrow> CPrinter" where
  "SameLine p = p\<lparr>sameline := True\<rparr>"

definition Chop :: "Decls \<Rightarrow> string \<Rightarrow> string" where
  "Chop K line = TrimRight line (COMMA K)"

definition indent :: "CPrinter \<Rightarrow> (string \<times> CPrinter) option" where
  "indent p =
     (if sameline p then Some ([], p\<lparr>sameline := False\<rparr>)
      else map_option (\<lambda>s. (s, p)) (Repeat ''  '' (level p)))"

text \<open>\<^verbatim>\<open>fmt.Fprint(p.w, ...)\<close> with string operands writes them one after the other.\<close>

definition Fprint :: "string list \<Rightarrow> CPrinter \<Rightarrow> CPrinter" where
  "Fprint operands p = p\<lparr>writer := writer p @ concat operands\<rparr>"

definition Print :: "string list \<Rightarrow> CPrinter \<Rightarrow> CPrinter" where
  "Print vals p = Fprint [Join vals '' ''] p"

definition PrintLevel :: "string \<Rightarrow> string list \<Rightarrow> CPrinter \<Rightarrow> CPrinter option" where
  "PrintLevel term vals p =
     do { (ind, p1) \<leftarrow> indent p; Some (Fprint [ind, Join vals '' '', term] p1) }"

definition PrintLevelIn :: "string \<Rightarrow> string list \<Rightarrow> CPrinter \<Rightarrow> CPrinter option" where
  "PrintLevelIn term vals p =
     do { (ind, p1) \<leftarrow> indent (p\<lparr>level := level p - 1\<rparr>);
          let p2 = Fprint [ind, Join vals '' '', term] p1;
          Some (p2\<lparr>level := level p2 + 1\<rparr>) }"

definition PrintBlockStart :: "BlockType \<Rightarrow> CPrinter \<Rightarrow> CPrinter option" where
  "PrintBlockStart b p =
     do { p1 \<leftarrow> PrintLevel NL [(if b = BT_CONST \<or> b = BT_VAR then ''('' else ''{'')] p;
          let p2 = UpdateLevel UP p1;
          if b = BT_CODE
          then (case top_ctx p2 of
                  None \<Rightarrow> None
                | Some c \<Rightarrow>
                    if length (ret_definitions c) > 0
                    then do { p3 \<leftarrow> PrintLevel NL [ret_definitions c] p2;
                              upd_ctx (\<lambda>c. c\<lparr>ret_definitions := []\<rparr>) p3 }
                    else Some p2)
          else Some p2 }"

definition PrintBlockEnd :: "Decls \<Rightarrow> BlockType \<Rightarrow> CPrinter \<Rightarrow> CPrinter option" where
  "PrintBlockEnd K b p =
     PrintLevel (NONE K) [(if b = BT_CONST \<or> b = BT_VAR then '')'' else ''}'')] (UpdateLevel DOWN p)"

section \<open>The C printer: guessing types\<close>

definition closing :: "char \<Rightarrow> char" where
  "closing ch =
     (if ch = CHR ''<'' then CHR ''>''
      else if ch = CHR ''['' then CHR '']''
      else if ch = CHR ''{'' then CHR ''}''
      else if ch = CHR ''('' then CHR '')''
      else CHR 0x00)"

text \<open>The loop of \<^verbatim>\<open>findMatch\<close>, on the bytes from position \<open>pos\<close> on.\<close>

fun findMatch_loop :: "string \<Rightarrow> char \<Rightarrow> int \<Rightarrow> int \<Rightarrow> int \<times> bool" where
  "findMatch_loop [] ch pos cnt = (0, False)"
| "findMatch_loop (c # cs) ch pos cnt =
     (if c = ch then findMatch_loop cs ch (pos + 1) (cnt + 1)
      else if c = closing ch
      then (if cnt - 1 = 0 then (pos, True) else findMatch_loop cs ch (pos + 1) (cnt - 1))
      else findMatch_loop cs ch (pos + 1) cnt)"

definition findMatch :: "string \<Rightarrow> char \<Rightarrow> int \<times> bool" where
  "findMatch s ch =
     (let opn = IndexByte s ch
      in if opn < 0 then (0, False) else findMatch_loop (drop (nat opn) s) ch opn 0)"

definition GuessType :: "string \<Rightarrow> string \<times> string" where
  "GuessType val =
     (if length val = 0 then (''auto'', val)
      else if hd val = CHR 0x27 then (''char'', val)
      else if hd val = CHR 0x22 then (''string'', val)
      else if hd val \<in> set ''0123456789.''
      then (if Contains val ''.'' \<or> Contains val ''E'' then (''float64'', val) else (''int'', val))
      else if val = ''true'' \<or> val = ''false'' then (''bool'', val)
      else if val = NIL \<or> val = NULL then (''void*'', val)
      else if HasPrefix val ''map<'' \<and> snd (findMatch val (CHR ''<''))
      then (take (nat (fst (findMatch val (CHR ''<'')) + 1)) val, val)
      else if IndexAny val ''[({'' \<ge> 0 \<and> val ! nat (IndexAny val ''[({'') = CHR ''[''
              \<and> snd (findMatch val (CHR ''[''))
      then (take (nat (fst (findMatch val (CHR ''['')) + 1)) val, val)
      else (''auto'', val))"

definition IsMultiValue :: "string \<Rightarrow> bool" where
  "IsMultiValue e = Contains e '',''"

fun getIdentifier :: "string \<Rightarrow> string" where
  "getIdentifier [] = []"
| "getIdentifier (c # cs) = (if c = CHR ''<'' \<or> c = CHR ''['' then [] else c # getIdentifier cs)"

section \<open>The C printer: announcements\<close>

definition FormatIdent :: "string \<Rightarrow> CPrinter \<Rightarrow> (string \<times> CPrinter) option" where
  "FormatIdent ident p =
     (if ident = NIL then Some (NULL, p)
      else if ident = IOTA
      then (case top_ctx p of
              None \<Rightarrow> None
            | Some c \<Rightarrow> map_option (\<lambda>p'. (Itoa (iota c), p')) (upd_ctx (\<lambda>c. c\<lparr>iota := iota c + 1\<rparr>) p))
      else if ident = ''string'' then Some (''std::string'', p)
      else Some (ident, p))"

definition PrintValue ::
  "Decls \<Rightarrow> string \<Rightarrow> string \<Rightarrow> string \<Rightarrow> string \<Rightarrow> bool \<Rightarrow> bool \<Rightarrow> CPrinter \<Rightarrow> CPrinter option" where
  "PrintValue K vtype typedef names vals ntuple vtuple p =
     do { (vtype1, vals1, p1) \<leftarrow>
            (if vtype = ''var'' then Some ([], vals, p)
             else if vtype = ''const'' \<and> length vals = 0
             then map_option (\<lambda>(v, p'). (vtype, v, p')) (FormatIdent IOTA p)
             else Some (vtype, vals, p));
          let (typedef2, vals2, names2) =
            (if length typedef = 0 then (fst (GuessType vals1), snd (GuessType vals1), names)
             else if Contains typedef ''[''
             then (take (nat (Index typedef ''['')) typedef, vals1,
                   names @ drop (nat (Index typedef ''['')) typedef)
             else (typedef, vals1, names));
          let names3 = (if ntuple \<and> length vals2 > 0 then ''tie('' @ names2 @ '')'' else names2);
          p2 \<leftarrow> PrintLevel (NONE K) [vtype1, typedef2, names3] p1;
          let p3 = (if length vals2 > 0
                    then Print ['' ='', (if vtuple then ''make_tuple('' @ vals2 @ '')'' else vals2)] p2
                    else p2);
          Some (Print ['';'' @ [CHR 0x0A]] p3) }"

definition PrintStmt :: "Decls \<Rightarrow> string \<Rightarrow> string \<Rightarrow> CPrinter \<Rightarrow> CPrinter option" where
  "PrintStmt K stmt e p =
     (if stmt = ''go'' then PrintLevel (SEMI K) [''Goroutine([](){ '' @ e @ ''; })''] p
      else if stmt = ''defer''
      then (case top_ctx p of
              None \<Rightarrow> None
            | Some c \<Rightarrow>
                do { p1 \<leftarrow> PrintLevel (SEMI K)
                            [''Deferred defer'' @ Itoa (deferred c) @ ''([](){ '' @ e @ ''; })''] p;
                     upd_ctx (\<lambda>c. c\<lparr>deferred := deferred c + 1\<rparr>) p1 })
      else if length stmt > 0 then PrintLevel (SEMI K) [stmt, e] p
      else PrintLevel (SEMI K) [e] p)"

definition PrintReturn :: "Decls \<Rightarrow> string \<Rightarrow> bool \<Rightarrow> CPrinter \<Rightarrow> CPrinter option" where
  "PrintReturn K e tuple p =
     (if length e = 0
      then (case top_ctx p of
              None \<Rightarrow> None
            | Some c \<Rightarrow>
                (let e1 = (if length (ret_values c) > 0 then Chop K (ret_values c) else e)
                 in PrintStmt K ''return'' (if tuple then ''make_tuple('' @ e1 @ '')'' else e1) p))
      else PrintStmt K ''return'' (if tuple then ''make_tuple('' @ e @ '')'' else e) p)"

definition PrintFunc :: "string \<Rightarrow> string \<Rightarrow> string \<Rightarrow> string \<Rightarrow> CPrinter \<Rightarrow> CPrinter option" where
  "PrintFunc recv name params results p =
     (if length recv = 0 \<and> length params = 0 \<and> length results = 0 \<and> name = ''main''
      then Some (Fprint [''int'', '' '', recv, name, ''('', ''int argc, char **argv'', '') ''] p)
      else
        (let results1 = (if length results = 0 then ''void''
                         else if IsMultiValue results then ''tuple<'' @ results @ ''>''
                         else results)
         in if length recv > 0
            then (case SplitN2 recv '' '' of
                    [part0, part1] \<Rightarrow>
                      do { p1 \<leftarrow> upd_ctx (\<lambda>c. c\<lparr>receiver := part1\<rparr>) p;
                           Some (Fprint [results1, '' '',
                                         ''/* '' @ part1 @ '' */ '' @ TrimRight part0 ''*'' @ ''::'',
                                         name, ''('', params, '') ''] p1) }
                  | _ \<Rightarrow> None)
            else Some (Fprint [results1, '' '', recv, name, ''('', params, '') ''] p)))"

definition PrintFor :: "Decls \<Rightarrow> string \<Rightarrow> string \<Rightarrow> string \<Rightarrow> CPrinter \<Rightarrow> CPrinter option" where
  "PrintFor K init0 cond0 post0 p =
     (let init1 = TrimRight init0 (SEMI K);
          post1 = TrimRight post0 (SEMI K);
          onlycond = (length init1 = 0 \<and> length post1 = 0);
          cond1 = (if length cond0 = 0 then ''true'' else cond0)
      in if onlycond
         then map_option (Print ['') '']) (PrintLevel (NONE K) [''while ('', cond1] p)
         else do { p1 \<leftarrow> PrintLevel (NONE K) [''for (''] p;
                   let p2 = (if length init1 > 0 then Print [init1] p1 else p1);
                   let p3 = Print [''; '' @ cond1 @ '';''] p2;
                   let p4 = (if length post1 > 0 then Print ['' '' @ post1] p3 else p3);
                   Some (Print ['') ''] p4) })"

definition FormatSelector :: "CPrinter \<Rightarrow> string \<Rightarrow> string \<Rightarrow> bool \<Rightarrow> string" where
  "FormatSelector p pname sel isObject =
     (if isObject then Selector (top_ctx p) pname @ sel
      else pname @ ''::'' @ sel)"

definition FormatPair :: "Decls \<Rightarrow> Pair \<Rightarrow> FieldType \<Rightarrow> CPrinter \<Rightarrow> (string \<times> CPrinter) option" where
  "FormatPair K v t p =
     (let (name1, value1) =
            (if HasSuffix (Value v) '']'' \<and> \<not> LastIndex (Value v) ''['' < 0
             then (let i = nat (LastIndex (Value v) ''['')
                   in if length (Name v) > 0
                      then (Name v @ drop i (Value v), take i (Value v))
                      else (Name v, take i (Value v) @ drop i (Value v)))
             else (Name v, Value v));
          value2 = (if HasPrefix value1 ''*''
                    then (let i = nat (LastIndex value1 ''*'' + 1) in drop i value1 @ take i value1)
                    else value1);
          (ret, p1) =
            (if t = METHOD
             then (if length name1 = 0 then ''// extends '' @ value2
                   else ''virtual '' @ Sprintf1 K value2 name1, p)
             else if t = RESULT \<and> length name1 > 0
             then (value2 @ '' /* '' @ name1 @ '' */'',
                   case ctx p of
                     [] \<Rightarrow> p
                   | c # rest \<Rightarrow>
                       p\<lparr>ctx := c\<lparr>ret_definitions := ret_definitions c @ value2 @ '' '' @ name1 @ '';'',
                                  ret_values := ret_values c @ name1 @ '', ''\<rparr> # rest\<rparr>)
             else if t = PARAM \<and> Contains value2 ''%s'' then (Sprintf1 K value2 name1, p)
             else if t = FIELD \<and> length name1 = 0 then (getIdentifier value2 @ '' '' @ value2, p)
             else if length name1 > 0 \<and> length value2 > 0 then (value2 @ '' '' @ name1, p)
             else (value2 @ name1, p))
      in if t = METHOD \<or> t = FIELD
         then map_option (\<lambda>(ind, p2). (ind @ ret @ SEMI K, p2)) (indent p1)
         else Some (ret @ COMMA K, p1))"

section \<open>The syntax tree\<close>

text \<open>
  The nodes of \<^verbatim>\<open>go/ast\<close> that \<^verbatim>\<open>walker/walker.go\<close> dispatches on. A child held in an
  interface (\<^verbatim>\<open>ast.Expr\<close>, \<^verbatim>\<open>ast.Stmt\<close>, \<^verbatim>\<open>ast.Decl\<close>, \<^verbatim>\<open>ast.Spec\<close>) or in a pointer is
  optional: \<open>None\<close> is nil. Tokens are kept as the text \<^verbatim>\<open>Tok.String()\<close> returns, an
  identifier as its name. \<^verbatim>\<open>OtherExpr\<close> and \<^verbatim>\<open>OtherNode\<close> stand for the kinds that the
  type switches do not list; they carry the name of the kind.
\<close>

datatype ChanDir = SEND | RECV | SEND_RECV

datatype expr =
    Ident string
  | StarExpr "expr option"
  | ArrayType "expr option" "expr option"
  | MapType "expr option" "expr option"
  | InterfaceType "field list option"
  | StructType "field list option"
  | ChanType ChanDir "expr option"
  | FuncType "field list option" "field list option"
  | BasicLit string
  | CompositeLit "expr option" "expr option list"
  | Ellipsis "expr option"
  | UnaryExpr string "expr option"
  | BinaryExpr "expr option" string "expr option"
  | IndexExpr "expr option" "expr option"
  | KeyValueExpr "expr option" "expr option"
  | SliceExpr "expr option" "expr option" "expr option" "expr option"
  | SelectorExpr "expr option" string
  | CallExpr "expr option" "expr option list" int
  | TypeAssertExpr "expr option" "expr option"
  | ParenExpr "expr option"
  | FuncLit "expr option" "node option"
  | OtherExpr string
and field = Field "string list" "expr option"
and node =
    File string "node option list"
  | ImportSpec "string option" string
  | TypeSpec string "expr option"
  | ValueSpec "string list" "expr option" "expr option list"
  | GenDecl string "node option list"
  | FuncDecl "field list option" string "field list option" "field list option" "node option"
  | BlockStmt "node option list"
  | IfStmt "node option" "expr option" "node option" "node option"
  | ForStmt "node option" "expr option" "node option" "node option"
  | SwitchStmt "node option" "expr option" "node option"
  | TypeSwitchStmt "node option" "node option" "node option"
  | CaseClause "expr option list" "node option list"
  | RangeStmt "expr option" "expr option" "expr option" "node option"
  | BranchStmt string "string option"
  | DeferStmt "expr option"
  | GoStmt "expr option"
  | ReturnStmt "expr option list"
  | ExprStmt "expr option"
  | DeclStmt "node option"
  | AssignStmt "expr option list" string "expr option list"
  | IncDecStmt "expr option" string
  | EmptyStmt
  | OtherNode string

section \<open>The walker\<close>

text \<open>Helpers of \<^verbatim>\<open>walker/walker.go\<close>.\<close>

definition identString :: "string option \<Rightarrow> string" where
  "identString i = (case i of None \<Rightarrow> [] | Some name \<Rightarrow> name)"

definition ifTrue :: "string \<Rightarrow> bool \<Rightarrow> string" where
  "ifTrue val cond = (if cond then val else [])"

definition wrapIf :: "string \<Rightarrow> string" where
  "wrapIf val = (if length val > 0 then ''('' @ val @ '')'' else [])"

definition parseNames :: "string list \<Rightarrow> string" where
  "parseNames v = Join v '', ''"

text \<open>
  The walker drives a \<^verbatim>\<open>printer.Printer\<close>. The interface is declared outside the sources at
  hand; it is a parameter of the model: one field per method that \<^verbatim>\<open>walker.go\<close> calls, over
  an arbitrary printer state \<^typ>\<open>'p\<close>. A method returns the text it writes to the writer it
  was given (\<^verbatim>\<open>NewWalker\<close> passes \<^verbatim>\<open>&w.buffer\<close>) and the new printer state. The two
  remaining fields are \<^verbatim>\<open>fmt.Sprintf("%#v", n)\<close>, the Go-syntax dump of a node, which prints
  pointer values and is not modelled further.
\<close>

record 'p Env =
  Printer_PrintPackage :: "string \<Rightarrow> 'p \<Rightarrow> string \<times> 'p"
  Printer_PrintImport :: "string \<Rightarrow> string \<Rightarrow> 'p \<Rightarrow> string \<times> 'p"
  Printer_PrintType :: "string \<Rightarrow> string \<Rightarrow> 'p \<Rightarrow> string \<times> 'p"
  Printer_PrintValue :: "string \<Rightarrow> string \<Rightarrow> string \<Rightarrow> string \<Rightarrow> 'p \<Rightarrow> string \<times> 'p"
  Printer_PrintFunc :: "string \<Rightarrow> string \<Rightarrow> string \<Rightarrow> string \<Rightarrow> 'p \<Rightarrow> string \<times> 'p"
  Printer_PrintLevel :: "string list \<Rightarrow> 'p \<Rightarrow> string \<times> 'p"
  Printer_UpdateLevel :: "int \<Rightarrow> 'p \<Rightarrow> string \<times> 'p"
  Printer_PrintIf :: "string \<Rightarrow> string \<Rightarrow> 'p \<Rightarrow> string \<times> 'p"
  Printer_SameLine :: "'p \<Rightarrow> string \<times> 'p"
  Printer_PrintElse :: "'p \<Rightarrow> string \<times> 'p"
  Printer_Print :: "string list \<Rightarrow> 'p \<Rightarrow> string \<times> 'p"
  Printer_PrintFor :: "string \<Rightarrow> string \<Rightarrow> string \<Rightarrow> 'p \<Rightarrow> string \<times> 'p"
  Printer_PrintSwitch :: "string \<Rightarrow> string \<Rightarrow> 'p \<Rightarrow> string \<times> 'p"
  Printer_PrintStmt :: "string \<Rightarrow> string \<Rightarrow> 'p \<Rightarrow> string \<times> 'p"
  Printer_PrintEmpty :: "'p \<Rightarrow> string \<times> 'p"
  GoSyntax_node :: "node \<Rightarrow> string"
  GoSyntax_expr :: "expr \<Rightarrow> string"

text \<open>
  \<^verbatim>\<open>GoWalker\<close>: the printer, the parent node, the buffer the printer writes to, the
  flush flag, and the text \<^verbatim>\<open>fmt.Print\<close> has sent to the standard output.
\<close>

record 'p GoWalker =
  printer :: 'p
  parent :: "node option"
  buffer :: string
  flush :: bool
  stdout :: string

text \<open>A call of a printer method: its text is appended to the buffer.\<close>

definition emit :: "('p \<Rightarrow> string \<times> 'p) \<Rightarrow> 'p GoWalker \<Rightarrow> 'p GoWalker" where
  "emit m wk = (case m (printer wk) of (t, p') \<Rightarrow> wk\<lparr>printer := p', buffer := buffer wk @ t\<rparr>)"

definition Flush :: "'p GoWalker \<Rightarrow> 'p GoWalker" where
  "Flush wk = (if flush wk \<and> length (buffer wk) > 0
               then wk\<lparr>stdout := stdout wk @ buffer wk, buffer := []\<rparr> else wk)"


text \<open>
  \<^verbatim>\<open>BufferVisit\<close>, with the call \<^verbatim>\<open>w.Visit(node)\<close> passed as the argument \<open>visit\<close>:
  the traversal below is defined by primitive recursion on the tree, and \<^verbatim>\<open>BufferVisit\<close>
  calls it on its own argument.
\<close>

definition capture :: "('p GoWalker \<Rightarrow> 'p GoWalker option) \<Rightarrow> 'p GoWalker \<Rightarrow> (string \<times> 'p GoWalker) option" where
  "capture visit wk =
     do { w1 \<leftarrow> visit ((Flush wk)\<lparr>flush := False\<rparr>);
          Some (TrimSpace (buffer w1),
                if flush wk then w1\<lparr>flush := flush wk, buffer := []\<rparr> else w1\<lparr>flush := flush wk\<rparr>) }"

text \<open>The last line of \<^verbatim>\<open>parseExprList\<close> and \<^verbatim>\<open>parseFieldList\<close>: \<^verbatim>\<open>strings.Join\<close>.\<close>

definition joined :: "string \<Rightarrow> (string list \<times> 'p GoWalker) option \<Rightarrow> (string \<times> 'p GoWalker) option" where
  "joined sep r = do { (elems, w1) \<leftarrow> r; Some (Join elems sep, w1) }"

text \<open>
  \<^verbatim>\<open>Visit\<close> and \<^verbatim>\<open>parseExpr\<close>. \<^verbatim>\<open>Visit\<close> is the nil test and the code around the type
  switch, \<^verbatim>\<open>VisitNode\<close> the switch (its third argument is \<^verbatim>\<open>pparent\<close>), \<^verbatim>\<open>VisitAll\<close> a
  loop over a slice of nodes; likewise \<^verbatim>\<open>parseExpr\<close>, \<^verbatim>\<open>parseExprNode\<close> and the loops
  \<^verbatim>\<open>parseExprs\<close>, \<^verbatim>\<open>parseFields\<close>. The result is \<open>None\<close> where the Go code panics: the type
  assertion on the parent of a \<^verbatim>\<open>ValueSpec\<close>, and a nil pointer where the code dereferences
  it (a function declaration without body reaches \<^verbatim>\<open>n.List\<close> of a nil block). The value
  \<^verbatim>\<open>Visit\<close> returns to \<^verbatim>\<open>ast.Walk\<close> is not modelled: every call in the file ignores it.
\<close>

primrec Visit :: "'p Env \<Rightarrow> node option \<Rightarrow> 'p GoWalker \<Rightarrow> 'p GoWalker option"
and VisitNode :: "'p Env \<Rightarrow> node \<Rightarrow> node option \<Rightarrow> 'p GoWalker \<Rightarrow> 'p GoWalker option"
and VisitAll :: "'p Env \<Rightarrow> node option list \<Rightarrow> 'p GoWalker \<Rightarrow> 'p GoWalker option"
and parseExpr :: "'p Env \<Rightarrow> expr option \<Rightarrow> 'p GoWalker \<Rightarrow> (string \<times> 'p GoWalker) option"
and parseExprNode :: "'p Env \<Rightarrow> expr \<Rightarrow> 'p GoWalker \<Rightarrow> (string \<times> 'p GoWalker) option"
and parseExprs :: "'p Env \<Rightarrow> expr option list \<Rightarrow> 'p GoWalker \<Rightarrow> (string list \<times> 'p GoWalker) option"
and parseField :: "'p Env \<Rightarrow> field \<Rightarrow> 'p GoWalker \<Rightarrow> (string \<times> 'p GoWalker) option"
and parseFields :: "'p Env \<Rightarrow> field list \<Rightarrow> 'p GoWalker \<Rightarrow> (string list \<times> 'p GoWalker) option"
and parseFieldList :: "'p Env \<Rightarrow> field list option \<Rightarrow> string \<Rightarrow> 'p GoWalker \<Rightarrow> (string \<times> 'p GoWalker) option"
where
  "Visit E None wk = Some wk"
| "Visit E (Some n) wk =
     do { w1 \<leftarrow> VisitNode E n (parent wk) (wk\<lparr>parent := Some n\<rparr>);
          Some ((Flush w1)\<lparr>parent := parent wk\<rparr>) }"
| "VisitNode E (File name decls) pp wk =
     VisitAll E decls (emit (Printer_PrintPackage E name) wk)"
| "VisitNode E (ImportSpec name path) pp wk =
     Some (emit (Printer_PrintImport E (identString name) path) wk)"
| "VisitNode E (TypeSpec name t) pp wk =
     do { (s, w1) \<leftarrow> parseExpr E t wk;
          Some (emit (Printer_PrintType E name s) w1) }"
| "VisitNode E (ValueSpec names t vals) pp wk =
     (case pp of
        Some (GenDecl tok specs) \<Rightarrow>
          do { (ts, w1) \<leftarrow> parseExpr E t wk;
               (vs, w2) \<leftarrow> joined '', '' (parseExprs E vals w1);
               Some (emit (Printer_PrintValue E tok (parseNames names) ts vs) w2) }
      | _ \<Rightarrow> None)"
| "VisitNode E (GenDecl tok specs) pp wk = VisitAll E specs wk"
| "VisitNode E (FuncDecl recv name params results body) pp wk =
     do { (r, w1) \<leftarrow> parseFieldList E recv '', '' wk;
          (ps, w2) \<leftarrow> parseFieldList E params '', '' w1;
          (rs, w3) \<leftarrow> parseFieldList E results '', '' w2;
          w4 \<leftarrow> (if body = None then None
                 else Visit E body (emit (Printer_PrintFunc E r name ps rs) w3));
          Some (emit (Printer_Print E [NL]) w4) }"
| "VisitNode E (BlockStmt list) pp wk =
     do { w1 \<leftarrow> VisitAll E list
                  (emit (Printer_UpdateLevel E UP) (emit (Printer_PrintLevel E [''{'' @ NL]) wk));
          Some (emit (Printer_PrintLevel E [''}'']) (emit (Printer_UpdateLevel E DOWN) w1)) }"
| "VisitNode E (IfStmt init cond body els) pp wk =
     do { (i, w1) \<leftarrow> capture (Visit E init) wk;
          (c, w2) \<leftarrow> parseExpr E cond w1;
          w3 \<leftarrow> (if body = None then None else Visit E body (emit (Printer_PrintIf E i c) w2));
          w4 \<leftarrow> (if els \<noteq> None
                 then Visit E els (emit (Printer_PrintElse E) (emit (Printer_SameLine E) w3))
                 else Some w3);
          Some (emit (Printer_Print E [NL]) w4) }"
| "VisitNode E (ForStmt init cond post body) pp wk =
     do { (i, w1) \<leftarrow> capture (Visit E init) wk;
          (c, w2) \<leftarrow> parseExpr E cond w1;
          (q, w3) \<leftarrow> capture (Visit E post) w2;
          w4 \<leftarrow> (if body = None then None else Visit E body (emit (Printer_PrintFor E i c q) w3));
          Some (emit (Printer_Print E [NL]) w4) }"
| "VisitNode E (SwitchStmt init tag body) pp wk =
     do { (i, w1) \<leftarrow> capture (Visit E init) wk;
          (t, w2) \<leftarrow> parseExpr E tag w1;
          w3 \<leftarrow> (if body = None then None else Visit E body (emit (Printer_PrintSwitch E i t) w2));
          Some (emit (Printer_Print E [NL]) w3) }"
| "VisitNode E (TypeSwitchStmt init assign body) pp wk =
     do { (i, w1) \<leftarrow> capture (Visit E init) wk;
          (a, w2) \<leftarrow> capture (Visit E assign) w1;
          w3 \<leftarrow> (if body = None then None else Visit E body (emit (Printer_PrintSwitch E i a) w2));
          Some (emit (Printer_Print E [NL]) w3) }"
| "VisitNode E (CaseClause list body) pp wk =
     do { w1 \<leftarrow> (if length list > 0
                  then do { (l, w0) \<leftarrow> joined '', '' (parseExprs E list wk);
                            Some (emit (Printer_PrintLevel E [''case'', l, '':'', NL]) w0) }
                  else Some (emit (Printer_PrintLevel E [''default:'', NL]) wk));
          w2 \<leftarrow> VisitAll E body (emit (Printer_UpdateLevel E UP) w1);
          Some (emit (Printer_UpdateLevel E DOWN) w2) }"
| "VisitNode E (RangeStmt key val x body) pp wk =
     do { (k, w1) \<leftarrow> parseExpr E key wk;
          (v, w2) \<leftarrow> parseExpr E val w1;
          (e, w3) \<leftarrow> parseExpr E x w2;
          w4 \<leftarrow> (if body = None then None
                 else Visit E body
                        (emit (Printer_PrintLevel E [''for'', k, '','', v, '':= range'', e]) w3));
          Some (emit (Printer_Print E [NL]) w4) }"
| "VisitNode E (BranchStmt tok label) pp wk =
     Some (emit (Printer_PrintStmt E tok (identString label)) wk)"
| "VisitNode E (DeferStmt call) pp wk =
     do { (c, w1) \<leftarrow> (if call = None then None else parseExpr E call wk);
          Some (emit (Printer_PrintStmt E ''defer'' c) w1) }"
| "VisitNode E (GoStmt call) pp wk =
     do { (c, w1) \<leftarrow> (if call = None then None else parseExpr E call wk);
          Some (emit (Printer_PrintStmt E ''go'' c) w1) }"
| "VisitNode E (ReturnStmt results) pp wk =
     do { (r, w1) \<leftarrow> joined '', '' (parseExprs E results wk);
          Some (emit (Printer_PrintStmt E ''return'' r) w1) }"
| "VisitNode E (ExprStmt x) pp wk =
     do { (s, w1) \<leftarrow> parseExpr E x wk;
          Some (emit (Printer_PrintLevel E [s, NL]) w1) }"
| "VisitNode E (DeclStmt decl) pp wk = Visit E decl wk"
| "VisitNode E (AssignStmt lhs tok rhs) pp wk =
     do { (l, w1) \<leftarrow> joined '', '' (parseExprs E lhs wk);
          (r, w2) \<leftarrow> joined '', '' (parseExprs E rhs w1);
          Some (emit (Printer_PrintLevel E [l, tok, r, NL]) w2) }"
| "VisitNode E (IncDecStmt x tok) pp wk =
     do { (s, w1) \<leftarrow> parseExpr E x wk;
          Some (emit (Printer_PrintLevel E [s @ tok, '' '']) w1) }"
| "VisitNode E EmptyStmt pp wk = Some (emit (Printer_PrintEmpty E) wk)"
| "VisitNode E (OtherNode kind) pp wk =
     Some (emit (Printer_Print E [''/* Node: '' @ GoSyntax_node E (OtherNode kind) @ '' */'' @ NL]) wk)"
| "VisitAll E [] wk = Some wk"
| "VisitAll E (n # ns) wk = do { w1 \<leftarrow> Visit E n wk; VisitAll E ns w1 }"
| "parseExpr E None wk = Some ([], wk)"
| "parseExpr E (Some e) wk = parseExprNode E e wk"
| "parseExprNode E (Ident name) wk = Some (name, wk)"
| "parseExprNode E (StarExpr x) wk =
     do { (s, w1) \<leftarrow> parseExpr E x wk; Some (''*'' @ s, w1) }"
| "parseExprNode E (ArrayType len elt) wk =
     do { (l, w1) \<leftarrow> parseExpr E len wk; (e, w2) \<leftarrow> parseExpr E elt w1;
          Some (''['' @ l @ '']'' @ e, w2) }"
| "parseExprNode E (MapType key val) wk =
     do { (k, w1) \<leftarrow> parseExpr E key wk; (v, w2) \<leftarrow> parseExpr E val w1;
          Some (''['' @ k @ '']'' @ v, w2) }"
| "parseExprNode E (InterfaceType methods) wk =
     do { (m, w1) \<leftarrow> parseFieldList E methods ''; '' wk; Some (''interface{'' @ m @ ''}'', w1) }"
| "parseExprNode E (StructType flds) wk =
     do { (f, w1) \<leftarrow> parseFieldList E flds ''; '' wk; Some (''struct{'' @ f @ ''}'', w1) }"
| "parseExprNode E (ChanType dir val) wk =
     do { (v, w1) \<leftarrow> parseExpr E val wk;
          Some ((if dir = SEND then ''chan<-'' else if dir = RECV then ''<-chan'' else ''chan'') @ '' '' @ v, w1) }"
| "parseExprNode E (FuncType params results) wk =
     do { (ps, w1) \<leftarrow> parseFieldList E params '', '' wk;
          (rs, w2) \<leftarrow> parseFieldList E results '', '' w1;
          Some (''('' @ ps @ '') '' @ wrapIf rs, w2) }"
| "parseExprNode E (BasicLit v) wk = Some (v, wk)"
| "parseExprNode E (CompositeLit t elts) wk =
     do { (ts, w1) \<leftarrow> parseExpr E t wk; (es, w2) \<leftarrow> joined '', '' (parseExprs E elts w1);
          Some (ts @ ''{'' @ es @ ''}'', w2) }"
| "parseExprNode E (Ellipsis elt) wk =
     do { (s, w1) \<leftarrow> parseExpr E elt wk; Some (''...'' @ s, w1) }"
| "parseExprNode E (UnaryExpr op x) wk =
     do { (s, w1) \<leftarrow> parseExpr E x wk; Some (op @ s, w1) }"
| "parseExprNode E (BinaryExpr x op y) wk =
     do { (a, w1) \<leftarrow> parseExpr E x wk; (b, w2) \<leftarrow> parseExpr E y w1;
          Some (a @ '' '' @ op @ '' '' @ b, w2) }"
| "parseExprNode E (IndexExpr x idx) wk =
     do { (a, w1) \<leftarrow> parseExpr E x wk; (b, w2) \<leftarrow> parseExpr E idx w1;
          Some (a @ ''['' @ b @ '']'', w2) }"
| "parseExprNode E (KeyValueExpr key val) wk =
     do { (k, w1) \<leftarrow> parseExpr E key wk; (v, w2) \<leftarrow> parseExpr E val w1;
          Some (k @ '': '' @ v, w2) }"
| "parseExprNode E (SliceExpr x low high mx) wk =
     (if mx = None
      then do { (a, w1) \<leftarrow> parseExpr E x wk; (l, w2) \<leftarrow> parseExpr E low w1;
                (h, w3) \<leftarrow> parseExpr E high w2;
                Some (a @ ''['' @ l @ '':'' @ h @ '']'', w3) }
      else do { (a, w1) \<leftarrow> parseExpr E x wk; (l, w2) \<leftarrow> parseExpr E low w1;
                (h, w3) \<leftarrow> parseExpr E high w2; (m, w4) \<leftarrow> parseExpr E mx w3;
                Some (a @ ''['' @ l @ '':'' @ h @ '':'' @ m @ '']'', w4) })"
| "parseExprNode E (SelectorExpr x sel) wk =
     do { (a, w1) \<leftarrow> parseExpr E x wk; Some (a @ ''.'' @ sel, w1) }"
| "parseExprNode E (CallExpr f args ell) wk =
     do { (a, w1) \<leftarrow> parseExpr E f wk; (b, w2) \<leftarrow> joined '', '' (parseExprs E args w1);
          Some (a @ ''('' @ b @ ifTrue ''...'' (ell > 0) @ '')'', w2) }"
| "parseExprNode E (TypeAssertExpr x t) wk =
     do { (a, w1) \<leftarrow> parseExpr E x wk;
          (b, w2) \<leftarrow> (if t \<noteq> None then parseExpr E t w1 else Some (''type'', w1));
          Some (a @ ''.('' @ b @ '')'', w2) }"
| "parseExprNode E (ParenExpr x) wk =
     do { (a, w1) \<leftarrow> parseExpr E x wk; Some (''('' @ a @ '')'', w1) }"
| "parseExprNode E (FuncLit t body) wk =
     do { (a, w1) \<leftarrow> (if t = None then None else parseExpr E t wk);
          (b, w2) \<leftarrow> (if body = None then None else capture (Visit E body) w1);
          Some (''func'' @ a @ '' '' @ b, w2) }"
| "parseExprNode E (OtherExpr kind) wk =
     Some (''/* Expr: '' @ GoSyntax_expr E (OtherExpr kind) @ '' */'', wk)"
| "parseExprs E [] wk = Some ([], wk)"
| "parseExprs E (e # es) wk =
     do { (s, w1) \<leftarrow> parseExpr E e wk; (ss, w2) \<leftarrow> parseExprs E es w1;
          Some (s # ss, w2) }"
| "parseField E (Field names t) wk =
     do { (ts, w1) \<leftarrow> parseExpr E t wk;
          Some (if length (parseNames names) > 0 then parseNames names @ '' '' @ ts else ts, w1) }"
| "parseFields E [] wk = Some ([], wk)"
| "parseFields E (f # fs) wk =
     do { (s, w1) \<leftarrow> parseField E f wk;
          (rest, w2) \<leftarrow> parseFields E fs w1;
          Some (s # rest, w2) }"
| "parseFieldList E None sep wk = Some ([], wk)"
| "parseFieldList E (Some l) sep wk = joined sep (parseFields E l wk)"


text \<open>The functions of \<^verbatim>\<open>walker.go\<close> that the traversal above has inlined.\<close>

definition BufferVisit :: "'p Env \<Rightarrow> node option \<Rightarrow> 'p GoWalker \<Rightarrow> (string \<times> 'p GoWalker) option" where
  "BufferVisit E n wk = capture (Visit E n) wk"

definition parseExprList :: "'p Env \<Rightarrow> expr option list \<Rightarrow> 'p GoWalker \<Rightarrow> (string \<times> 'p GoWalker) option" where
  "parseExprList E l wk = joined '', '' (parseExprs E l wk)"

definition exprOr :: "'p Env \<Rightarrow> expr option \<Rightarrow> string \<Rightarrow> 'p GoWalker \<Rightarrow> (string \<times> 'p GoWalker) option" where
  "exprOr E e v wk = (if e \<noteq> None then parseExpr E e wk else Some (v, wk))"

definition NewWalker :: "'p \<Rightarrow> 'p GoWalker" where
  "NewWalker p = \<lparr>printer = p, parent = None, buffer = [], flush = True, stdout = []\<rparr>"

section \<open>Auxiliary definitions\<close>

text \<open>The indentation \<^verbatim>\<open>strings.Repeat("  ", level)\<close> of a non-negative level.\<close>

definition spaces :: "int \<Rightarrow> string" where
  "spaces l = concat (replicate (nat l) ''  '')"

text \<open>The number a decimal numeral denotes (the inverse of \<^const>\<open>digits\<close>).\<close>

fun decimal_value :: "string \<Rightarrow> nat" where
  "decimal_value [] = 0"
| "decimal_value (c # cs) = (of_char c - 48) * 10 ^ length cs + decimal_value cs"

text \<open>
  The printer is driven through its methods by the walker of the C back end, which is not
  part of the sources at hand. A run of that caller is a sequence of method calls; the calls
  made between a \<^verbatim>\<open>PushContext\<close> and the matching \<^verbatim>\<open>PopContext\<close> are grouped under
  \<open>InContext\<close>. The text a formatter returns is handed back to the caller and is not part of
  the printer's state.
\<close>

datatype call =
    DoPrint "string list"
  | DoPrintLevel string "string list"
  | DoUpdateLevel int
  | DoSameLine
  | DoPrintBlockStart BlockType
  | DoPrintBlockEnd BlockType
  | DoPrintValue string string string string bool bool
  | DoPrintStmt string string
  | DoPrintReturn string bool
  | DoPrintFunc string string string string
  | DoPrintFor string string string
  | DoFormatIdent string
  | DoFormatPair Pair FieldType
  | InContext "call list"

primrec run_call :: "Decls \<Rightarrow> call \<Rightarrow> CPrinter \<Rightarrow> CPrinter option"
  and run_calls :: "Decls \<Rightarrow> call list \<Rightarrow> CPrinter \<Rightarrow> CPrinter option" where
  "run_call K (DoPrint vals) p = Some (Print vals p)"
| "run_call K (DoPrintLevel term vals) p = PrintLevel term vals p"
| "run_call K (DoUpdateLevel delta) p = Some (UpdateLevel delta p)"
| "run_call K DoSameLine p = Some (SameLine p)"
| "run_call K (DoPrintBlockStart b) p = PrintBlockStart b p"
| "run_call K (DoPrintBlockEnd b) p = PrintBlockEnd K b p"
| "run_call K (DoPrintValue vtype typedef names vals ntuple vtuple) p =
     PrintValue K vtype typedef names vals ntuple vtuple p"
| "run_call K (DoPrintStmt stmt e) p = PrintStmt K stmt e p"
| "run_call K (DoPrintReturn e tuple) p = PrintReturn K e tuple p"
| "run_call K (DoPrintFunc recv name params results) p = PrintFunc recv name params results p"
| "run_call K (DoPrintFor init0 cond0 post0) p = PrintFor K init0 cond0 post0 p"
| "run_call K (DoFormatIdent ident) p = map_option snd (FormatIdent ident p)"
| "run_call K (DoFormatPair v t) p = map_option snd (FormatPair K v t p)"
| "run_call K (InContext cs) p = run_calls K cs (PushContext p) \<bind> PopContext"
| "run_calls K [] p = Some p"
| "run_calls K (c # cs) p = run_call K c p \<bind> run_calls K cs"

text \<open>The deferred-call statements among the calls of one context (nested contexts apart).\<close>

fun is_defer :: "call \<Rightarrow> bool" where
  "is_defer (DoPrintStmt stmt e) = (stmt = ''defer'')"
| "is_defer _ = False"

definition defers :: "call list \<Rightarrow> int" where
  "defers cs = int (length (filter is_defer cs))"



text \<open>
  An instance of the parameters and a printer in its initial state, on which the model is
  run in the examples below.
\<close>

definition decls_example :: Decls where
  "decls_example = \<lparr>NONE = [], SEMI = '';'' @ [CHR 0x0A], COMMA = '', '', COLON = '':'' @ [CHR 0x0A],
         Sprintf1 = (\<lambda>f a. f)\<rparr>"

definition printer_example :: CPrinter where
  "printer_example = \<lparr>level = 0, sameline = False, writer = [], ctx = []\<rparr>"


section \<open>Selection outside any context\<close>

text \<open>
  Claim C10. When no emission context is active (the chain is nil), \<^verbatim>\<open>Selector\<close> is safe
  on the nil context and returns the explicit qualifier \<open>name.\<close> for every name, so an
  object selection formatted there is \<open>name.sel\<close>: the rewrite to \<open>this->\<close> never fires,
  not even for the empty name.
\<close>

theorem Selector_nil_explicit:
  "Selector None s = s @ ''.'' \<and>
   Selector None s \<noteq> ''this->'' \<and>
   top_ctx (p\<lparr>ctx := []\<rparr>) = None \<and>
   top_ctx (Reset p) = None \<and>
   FormatSelector (p\<lparr>ctx := []\<rparr>) s sel True = s @ ''.'' @ sel"
  by (auto simp: Selector_def top_ctx_def Reset_def FormatSelector_def)

section \<open>Decimal numerals and indentation\<close>

lemma decimal_value_snoc: "decimal_value (xs @ [d]) = 10 * decimal_value xs + (of_char d - 48)"
  by (induction xs) (simp_all add: algebra_simps)

lemma of_char_digit: "d < 10 \<Longrightarrow> of_char (digit d) - 48 = d"
proof -
  assume "d < 10"
  then have "d \<in> {0,1,2,3,4,5,6,7,8,9}" by auto
  then show ?thesis by (auto simp: digit_def)
qed

lemma decimal_value_digits: "decimal_value (digits n) = n"
proof (induction n rule: digits.induct)
  case (1 n)
  show ?case
  proof (cases "n < 10")
    case True
    then show ?thesis by (simp add: digits.simps [of n] of_char_digit)
  next
    case False
    with 1 have "decimal_value (digits (n div 10)) = n div 10" by simp
    with False show ?thesis
      by (simp add: digits.simps [of n] decimal_value_snoc of_char_digit)
  qed
qed

lemma digits_inj: "digits n = digits m \<Longrightarrow> n = m"
  by (metis decimal_value_digits)

lemma digits_chars: "set (digits n) \<subseteq> set ''0123456789''"
proof (induction n rule: digits.induct)
  case (1 n)
  have d: "\<And>k. k < 10 \<Longrightarrow> digit k \<in> set ''0123456789''"
    unfolding digit_def by (rule nth_mem) simp
  show ?case
  proof (cases "n < 10")
    case True
    then show ?thesis using d [of n] by (simp add: digits.simps [of n])
  next
    case False
    with 1 have "set (digits (n div 10)) \<subseteq> set ''0123456789''" by simp
    moreover have "digit (n mod 10) \<in> set ''0123456789''" by (rule d) simp
    ultimately show ?thesis using False by (simp add: digits.simps [of n])
  qed
qed

lemma digits_nonempty: "digits n \<noteq> []"
  by (simp add: digits.simps [of n])

lemma Itoa_inj: "Itoa i = Itoa j \<Longrightarrow> i = j"
proof -
  assume eq: "Itoa i = Itoa j"
  have nominus: "\<And>n. hd (digits n) \<noteq> CHR ''-''"
  proof -
    fix n
    have "hd (digits n) \<in> set (digits n)" using digits_nonempty by simp
    then have "hd (digits n) \<in> set ''0123456789''" using digits_chars by blast
    then show "hd (digits n) \<noteq> CHR ''-''" by auto
  qed
  show ?thesis
  proof (cases "i < 0")
    case True
    show ?thesis
    proof (cases "j < 0")
      case True
      with \<open>i < 0\<close> eq have "digits (nat (- i)) = digits (nat (- j))" by (simp add: Itoa_def)
      then have "nat (- i) = nat (- j)" by (rule digits_inj)
      with True \<open>i < 0\<close> show ?thesis by simp
    next
      case False
      with \<open>i < 0\<close> eq have "CHR ''-'' # digits (nat (- i)) = digits (nat j)" by (simp add: Itoa_def)
      then have "hd (digits (nat j)) = CHR ''-''" by (metis list.sel(1))
      with nominus show ?thesis by blast
    qed
  next
    case False
    show ?thesis
    proof (cases "j < 0")
      case True
      with False eq have "digits (nat i) = CHR ''-'' # digits (nat (- j))" by (simp add: Itoa_def)
      then have "hd (digits (nat i)) = CHR ''-''" by (metis list.sel(1))
      with nominus show ?thesis by blast
    next
      case jf: False
      with False eq have "digits (nat i) = digits (nat j)" by (simp add: Itoa_def)
      then have "nat i = nat j" by (rule digits_inj)
      with False jf show ?thesis by simp
    qed
  qed
qed

lemma indent_ok: "\<not> sameline p \<Longrightarrow> 0 \<le> level p \<Longrightarrow> indent p = Some (spaces (level p), p)"
  by (simp add: indent_def Repeat_def spaces_def)

lemma PrintLevel_ok:
  "\<not> sameline p \<Longrightarrow> 0 \<le> level p \<Longrightarrow>
   PrintLevel t vs p = Some (p\<lparr>writer := writer p @ spaces (level p) @ Join vs '' '' @ t\<rparr>)"
  by (simp add: PrintLevel_def indent_ok Fprint_def)

lemma PrintLevel_frame:
  "PrintLevel t vs p = Some q \<Longrightarrow> ctx q = ctx p \<and> level q = level p \<and> \<not> sameline q"
  by (auto simp: PrintLevel_def indent_def Fprint_def Repeat_def split: if_splits Option.bind_splits)

lemma Itoa_0: "Itoa 0 = ''0''"
  by (simp add: Itoa_def digits.simps [of 0] digit_def)

lemma upd_ctx_Cons: "ctx p = c # rest \<Longrightarrow> upd_ctx f p = Some (p\<lparr>ctx := f c # rest\<rparr>)"
  by (simp add: upd_ctx_def)

lemma top_ctx_Cons: "ctx p = c # rest \<Longrightarrow> top_ctx p = Some c"
  by (simp add: top_ctx_def)

section \<open>Deferred calls\<close>

lemma PrintStmt_deferred:
  "PrintStmt K stmt e p = Some q \<Longrightarrow> ctx p = c # rest \<Longrightarrow>
   \<exists>c'. ctx q = c' # rest \<and> deferred c' = deferred c + (if stmt = ''defer'' then 1 else 0)"
  by (auto simp: PrintStmt_def top_ctx_def upd_ctx_def
      dest!: PrintLevel_frame split: if_splits Option.bind_splits list.splits option.splits)

lemma PrintBlockStart_deferred:
  "PrintBlockStart b p = Some q \<Longrightarrow> ctx p = c # rest \<Longrightarrow>
   \<exists>c'. ctx q = c' # rest \<and> deferred c' = deferred c"
  by (auto simp: PrintBlockStart_def UpdateLevel_def top_ctx_def upd_ctx_def Let_def
      dest!: PrintLevel_frame split: if_splits Option.bind_splits list.splits option.splits)

lemma FormatIdent_deferred:
  "FormatIdent ident p = Some (s, q) \<Longrightarrow> ctx p = c # rest \<Longrightarrow>
   \<exists>c'. ctx q = c' # rest \<and> deferred c' = deferred c"
  by (auto simp: FormatIdent_def top_ctx_def upd_ctx_def split: if_splits)

lemma PrintValue_deferred:
  "PrintValue K vtype typedef names vals ntuple vtuple p = Some q \<Longrightarrow> ctx p = c # rest \<Longrightarrow>
   \<exists>c'. ctx q = c' # rest \<and> deferred c' = deferred c"
  by (auto simp: PrintValue_def Print_def Fprint_def Let_def
      dest!: PrintLevel_frame FormatIdent_deferred split: if_splits Option.bind_splits prod.splits)

lemma PrintReturn_deferred:
  "PrintReturn K e tuple p = Some q \<Longrightarrow> ctx p = c # rest \<Longrightarrow>
   \<exists>c'. ctx q = c' # rest \<and> deferred c' = deferred c"
  by (auto simp: PrintReturn_def top_ctx_def Let_def
      dest!: PrintStmt_deferred split: if_splits)

lemma PrintFunc_deferred:
  "PrintFunc recv name params results p = Some q \<Longrightarrow> ctx p = c # rest \<Longrightarrow>
   \<exists>c'. ctx q = c' # rest \<and> deferred c' = deferred c"
  by (auto simp: PrintFunc_def Fprint_def upd_ctx_def Let_def
      split: if_splits list.splits Option.bind_splits)

lemma PrintFor_deferred:
  "PrintFor K init0 cond0 post0 p = Some q \<Longrightarrow> ctx p = c # rest \<Longrightarrow>
   \<exists>c'. ctx q = c' # rest \<and> deferred c' = deferred c"
  by (auto simp: PrintFor_def Print_def Fprint_def Let_def
      dest!: PrintLevel_frame split: if_splits Option.bind_splits)

lemma FormatPair_deferred:
  "FormatPair K v t p = Some (s, q) \<Longrightarrow> ctx p = c # rest \<Longrightarrow>
   \<exists>c'. ctx q = c' # rest \<and> deferred c' = deferred c"
  by (auto simp: FormatPair_def indent_def Let_def split: if_splits prod.splits)

lemma PrintBlockEnd_deferred:
  "PrintBlockEnd K b p = Some q \<Longrightarrow> ctx p = c # rest \<Longrightarrow>
   \<exists>c'. ctx q = c' # rest \<and> deferred c' = deferred c"
  by (auto simp: PrintBlockEnd_def UpdateLevel_def dest!: PrintLevel_frame)

lemma run_deferred_both:
  "(\<forall>p q c rest. run_call K c0 p = Some q \<longrightarrow> ctx p = c # rest \<longrightarrow>
      (\<exists>c'. ctx q = c' # rest \<and> deferred c' = deferred c + (if is_defer c0 then 1 else 0))) \<and>
   (\<forall>p q c rest. run_calls K cs p = Some q \<longrightarrow> ctx p = c # rest \<longrightarrow>
      (\<exists>c'. ctx q = c' # rest \<and> deferred c' = deferred c + defers cs))"
proof (rule run_call_run_calls.induct)
  fix x
  assume ih: "\<forall>p q c rest. run_calls K x p = Some q \<longrightarrow> ctx p = c # rest \<longrightarrow>
      (\<exists>c'. ctx q = c' # rest \<and> deferred c' = deferred c + defers x)"
  show "\<forall>p q c rest. run_call K (InContext x) p = Some q \<longrightarrow> ctx p = c # rest \<longrightarrow>
      (\<exists>c'. ctx q = c' # rest \<and> deferred c' = deferred c + (if is_defer (InContext x) then 1 else 0))"
  proof (intro allI impI)
    fix p q c rest
    assume r: "run_call K (InContext x) p = Some q" and c: "ctx p = c # rest"
    from r obtain q1 where q1: "run_calls K x (PushContext p) = Some q1" and pop: "PopContext q1 = Some q"
      by (auto simp: Option.bind_eq_Some_conv)
    have "ctx (PushContext p) = new_CContext # (c # rest)" using c by (simp add: PushContext_def)
    with ih q1 obtain c' where "ctx q1 = c' # (c # rest)" by blast
    with pop have "ctx q = c # rest" by (auto simp: PopContext_def)
    then show "\<exists>c'. ctx q = c' # rest \<and> deferred c' = deferred c + (if is_defer (InContext x) then 1 else 0)"
      by simp
  qed
next
  fix x1 x2
  assume ih1: "\<forall>p q c rest. run_call K x1 p = Some q \<longrightarrow> ctx p = c # rest \<longrightarrow>
      (\<exists>c'. ctx q = c' # rest \<and> deferred c' = deferred c + (if is_defer x1 then 1 else 0))"
    and ih2: "\<forall>p q c rest. run_calls K x2 p = Some q \<longrightarrow> ctx p = c # rest \<longrightarrow>
      (\<exists>c'. ctx q = c' # rest \<and> deferred c' = deferred c + defers x2)"
  show "\<forall>p q c rest. run_calls K (x1 # x2) p = Some q \<longrightarrow> ctx p = c # rest \<longrightarrow>
      (\<exists>c'. ctx q = c' # rest \<and> deferred c' = deferred c + defers (x1 # x2))"
  proof (intro allI impI)
    fix p q c rest
    assume r: "run_calls K (x1 # x2) p = Some q" and c: "ctx p = c # rest"
    from r obtain q1 where q1: "run_call K x1 p = Some q1" and r2: "run_calls K x2 q1 = Some q"
      by (auto simp: Option.bind_eq_Some_conv)
    from ih1 q1 c obtain c1 where c1: "ctx q1 = c1 # rest"
      "deferred c1 = deferred c + (if is_defer x1 then 1 else 0)" by blast
    from ih2 r2 c1(1) obtain c2 where c2: "ctx q = c2 # rest" "deferred c2 = deferred c1 + defers x2"
      by blast
    with c1(2) show "\<exists>c'. ctx q = c' # rest \<and> deferred c' = deferred c + defers (x1 # x2)"
      by (simp add: defers_def)
  qed
qed (auto simp: defers_def Print_def Fprint_def UpdateLevel_def SameLine_def
      dest: PrintLevel_frame PrintBlockStart_deferred PrintBlockEnd_deferred PrintValue_deferred
        PrintStmt_deferred PrintReturn_deferred PrintFunc_deferred PrintFor_deferred
        FormatIdent_deferred FormatPair_deferred)

lemma run_calls_deferred:
  "run_calls K cs p = Some q \<Longrightarrow> ctx p = c # rest \<Longrightarrow>
   \<exists>c'. ctx q = c' # rest \<and> deferred c' = deferred c + defers cs"
  using run_deferred_both [of K "DoSameLine" cs] by blast

lemma run_calls_append:
  "run_calls K (xs @ ys) p = run_calls K xs p \<bind> run_calls K ys"
proof (induction xs arbitrary: p)
  case Nil
  show ?case by simp
next
  case (Cons a xs)
  show ?case by (cases "run_call K a p") (simp_all add: Cons)
qed

lemma PrintStmt_defer_writes:
  assumes "PrintStmt K ''defer'' e p = Some q" and "ctx p = c # rest"
  shows "q = p\<lparr>sameline := False,
               writer := writer p @ (if sameline p then [] else spaces (level p)) @
                 ''Deferred defer'' @ Itoa (deferred c) @ ''([](){ '' @ e @ ''; })'' @ SEMI K,
               ctx := c\<lparr>deferred := deferred c + 1\<rparr> # rest\<rparr>"
  using assms
  by (auto simp: PrintStmt_def top_ctx_def upd_ctx_def PrintLevel_def indent_def Fprint_def
      Repeat_def spaces_def split: if_splits)

lemma defers_nonneg: "0 \<le> defers cs"
  by (simp add: defers_def)

text \<open>
  Claim C3. Take any function scope, that is any sequence of printer calls made inside a
  pushed context, in which two deferred-call statements occur, with arbitrary calls \<open>xs\<close>
  before the first, \<open>ys\<close> between the two and \<open>zs\<close> after the second (nested scopes with
  deferred calls of their own included). Each of the two statements is printed as a
  \<^verbatim>\<open>Deferred\<close> wrapper named \<open>defer\<close> followed by the number of deferred-call statements
  that precede it in this scope: the count starts at 0 for the first deferred call of the
  scope, whatever the enclosing scopes have counted, and the calls in between (blocks,
  other statements, nested scopes) do not disturb it. The two names are distinct, and
  leaving the scope gives the enclosing contexts back unchanged.
\<close>

theorem defer_wrapper_names:
  assumes "run_call K (InContext (xs @ DoPrintStmt ''defer'' e1 # ys @ DoPrintStmt ''defer'' e2 # zs)) p
             = Some q"
  shows "\<exists>p1 p2 p3 p4 p5.
           run_calls K xs (PushContext p) = Some p1
         \<and> PrintStmt K ''defer'' e1 p1 = Some p2
         \<and> writer p2 = writer p1 @ (if sameline p1 then [] else spaces (level p1)) @
               ''Deferred defer'' @ Itoa (defers xs) @ ''([](){ '' @ e1 @ ''; })'' @ SEMI K
         \<and> run_calls K ys p2 = Some p3
         \<and> PrintStmt K ''defer'' e2 p3 = Some p4
         \<and> writer p4 = writer p3 @ (if sameline p3 then [] else spaces (level p3)) @
               ''Deferred defer'' @ Itoa (defers xs + 1 + defers ys) @ ''([](){ '' @ e2 @ ''; })'' @ SEMI K
         \<and> run_calls K zs p4 = Some p5 \<and> PopContext p5 = Some q
         \<and> ''defer'' @ Itoa (defers xs) \<noteq> ''defer'' @ Itoa (defers xs + 1 + defers ys)
         \<and> ctx q = ctx p"
proof -
  from assms obtain q' where
      all: "run_calls K (xs @ DoPrintStmt ''defer'' e1 # ys @ DoPrintStmt ''defer'' e2 # zs) (PushContext p)
              = Some q'"
      and pop: "PopContext q' = Some q"
    by (auto simp: Option.bind_eq_Some_conv)
  from all obtain p1 where p1: "run_calls K xs (PushContext p) = Some p1"
      and r1: "run_calls K (DoPrintStmt ''defer'' e1 # ys @ DoPrintStmt ''defer'' e2 # zs) p1 = Some q'"
    by (auto simp: run_calls_append Option.bind_eq_Some_conv)
  from r1 obtain p2 where p2: "PrintStmt K ''defer'' e1 p1 = Some p2"
      and r2: "run_calls K (ys @ DoPrintStmt ''defer'' e2 # zs) p2 = Some q'"
    by (auto simp: Option.bind_eq_Some_conv)
  from r2 obtain p3 where p3: "run_calls K ys p2 = Some p3"
      and r3: "run_calls K (DoPrintStmt ''defer'' e2 # zs) p3 = Some q'"
    by (auto simp: run_calls_append Option.bind_eq_Some_conv)
  from r3 obtain p4 where p4: "PrintStmt K ''defer'' e2 p3 = Some p4"
      and r4: "run_calls K zs p4 = Some q'"
    by (auto simp: Option.bind_eq_Some_conv)
  have c0: "ctx (PushContext p) = new_CContext # ctx p" by (simp add: PushContext_def)
  from run_calls_deferred [OF p1 c0] obtain c1 where
      c1: "ctx p1 = c1 # ctx p" "deferred c1 = defers xs"
    by (auto simp: new_CContext_def)
  note w2 = PrintStmt_defer_writes [OF p2 c1(1)]
  have c2: "ctx p2 = c1\<lparr>deferred := deferred c1 + 1\<rparr> # ctx p" by (subst w2) simp
  from run_calls_deferred [OF p3 c2] obtain c3 where
      c3: "ctx p3 = c3 # ctx p" "deferred c3 = defers xs + 1 + defers ys"
    using c1(2) by auto
  note w4 = PrintStmt_defer_writes [OF p4 c3(1)]
  have c4: "ctx p4 = c3\<lparr>deferred := deferred c3 + 1\<rparr> # ctx p" by (subst w4) simp
  from run_calls_deferred [OF r4 c4] obtain c5 where c5: "ctx q' = c5 # ctx p" by auto
  from pop c5 have q: "q = q'\<lparr>ctx := ctx p\<rparr>" by (auto simp: PopContext_def)
  have wr2: "writer p2 = writer p1 @ (if sameline p1 then [] else spaces (level p1)) @
               ''Deferred defer'' @ Itoa (defers xs) @ ''([](){ '' @ e1 @ ''; })'' @ SEMI K"
    by (subst w2) (simp add: c1(2))
  have wr4: "writer p4 = writer p3 @ (if sameline p3 then [] else spaces (level p3)) @
               ''Deferred defer'' @ Itoa (defers xs + 1 + defers ys) @ ''([](){ '' @ e2 @ ''; })'' @ SEMI K"
    by (subst w4) (simp add: c3(2))
  have "defers xs \<noteq> defers xs + 1 + defers ys" using defers_nonneg [of ys] by simp
  then have "Itoa (defers xs) \<noteq> Itoa (defers xs + 1 + defers ys)"
    using Itoa_inj [of "defers xs" "defers xs + 1 + defers ys"] by blast
  then have ne: "''defer'' @ Itoa (defers xs) \<noteq> ''defer'' @ Itoa (defers xs + 1 + defers ys)"
    by simp
  show ?thesis
    using p1 p2 wr2 p3 p4 wr4 r4 pop ne q
    by (intro exI [of _ p1] exI [of _ p2] exI [of _ p3] exI [of _ p4] exI [of _ q']) simp
qed

theorem defer_wrapper_names_witness:
  "run_call decls_example
     (InContext [DoPrintStmt ''defer'' ''a()'',
                 InContext [DoPrintStmt ''defer'' ''b()''],
                 DoPrintStmt ''defer'' ''c()'']) printer_example
     = Some (printer_example\<lparr>writer :=
         ''Deferred defer0([](){ a(); });\<newline>Deferred defer0([](){ b(); });\<newline>Deferred defer1([](){ c(); });\<newline>''\<rparr>)
   \<and> ''defer'' @ Itoa 0 \<noteq> ''defer'' @ Itoa 1"
proof -
  have h: "run_call decls_example
     (InContext ([] @ DoPrintStmt ''defer'' ''a()'' #
                 [InContext [DoPrintStmt ''defer'' ''b()'']] @
                 DoPrintStmt ''defer'' ''c()'' # [])) printer_example
     = Some (printer_example\<lparr>writer :=
         ''Deferred defer0([](){ a(); });\<newline>Deferred defer0([](){ b(); });\<newline>Deferred defer1([](){ c(); });\<newline>''\<rparr>)"
    by code_simp
  from defer_wrapper_names [OF h]
  have "''defer'' @ Itoa (defers []) \<noteq>
        ''defer'' @ Itoa (defers [] + 1 + defers [InContext [DoPrintStmt ''defer'' ''b()'']])"
    by blast
  then have "''defer'' @ Itoa 0 \<noteq> ''defer'' @ Itoa 1" by (simp add: defers_def)
  with h show ?thesis by simp
qed



lemma Index_prefix: "Index (sub @ b) sub = 0"
proof (cases "sub @ b")
  case Nil
  then show ?thesis by simp
next
  case (Cons x xs)
  have "HasPrefix (sub @ b) sub" by (simp add: HasPrefix_def)
  with Cons show ?thesis by simp
qed

lemma Index_mid: "0 \<le> Index (a @ sub @ b) sub"
  by (induction a) (auto simp: Index_prefix Let_def)

lemma Index_Nil_nonempty: "sub \<noteq> [] \<Longrightarrow> Index [] sub = - 1"
  by simp

lemma PrintBlockStart_ctx_iota:
  "PrintBlockStart b p = Some q \<Longrightarrow> map iota (ctx q) = map iota (ctx p)"
  by (auto simp: PrintBlockStart_def UpdateLevel_def top_ctx_def upd_ctx_def Let_def
      dest!: PrintLevel_frame split: if_splits Option.bind_splits list.splits option.splits)

lemma PrintBlockEnd_ctx:
  "PrintBlockEnd K b p = Some q \<Longrightarrow> ctx q = ctx p"
  by (auto simp: PrintBlockEnd_def UpdateLevel_def dest!: PrintLevel_frame)


section \<open>Sequence constants\<close>





section \<open>Implicit receiver\<close>

lemma PrintBlockStart_receiver:
  "PrintBlockStart b p = Some q \<Longrightarrow> map receiver (ctx q) = map receiver (ctx p)"
  by (auto simp: PrintBlockStart_def UpdateLevel_def top_ctx_def upd_ctx_def Let_def
      dest!: PrintLevel_frame split: if_splits Option.bind_splits list.splits option.splits)

lemma PrintStmt_receiver:
  "PrintStmt K stmt e p = Some q \<Longrightarrow> map receiver (ctx q) = map receiver (ctx p)"
  by (auto simp: PrintStmt_def top_ctx_def upd_ctx_def
      dest!: PrintLevel_frame split: if_splits Option.bind_splits list.splits option.splits)

lemma FormatSelector_receivers:
  "map receiver (ctx q) = map receiver (ctx p) \<Longrightarrow>
   FormatSelector q x sel obj = FormatSelector p x sel obj"
  by (cases "ctx p"; cases "ctx q") (auto simp: FormatSelector_def top_ctx_def Selector_def)

lemma SplitN2_two_nonempty: "SplitN2 recv '' '' = [t, r] \<Longrightarrow> recv \<noteq> []"
  by (auto simp: SplitN2_def Let_def)

text \<open>
  Claim C2. When the function header is announced with a receiver \<open>type name\<close>, the name is
  recorded in the current context. From then on an object selection on that name is printed
  with \<open>this->\<close>, and an object selection on any other identifier keeps its explicit
  qualifier \<open>x.\<close>; this still holds after the body block is opened or a statement is
  printed.
\<close>

theorem receiver_selector:
  assumes "SplitN2 recv '' '' = [t, r]" and "ctx p = c # rest"
  shows "\<exists>p'. PrintFunc recv name params results p = Some p'
           \<and> top_ctx p' = Some (c\<lparr>receiver := r\<rparr>)
           \<and> FormatSelector p' r sel True = ''this->'' @ sel
           \<and> (\<forall>x. x \<noteq> r \<longrightarrow> FormatSelector p' x sel True = x @ ''.'' @ sel)
           \<and> (\<forall>q x. PrintBlockStart b p' = Some q \<or> PrintStmt K stmt e p' = Some q \<longrightarrow>
                  FormatSelector q x sel True = (if x = r then ''this->'' @ sel else x @ ''.'' @ sel))"
proof -
  define p' where "p' = Fprint [(if length results = 0 then ''void''
                      else if IsMultiValue results then ''tuple<'' @ results @ ''>'' else results),
                     '' '', ''/* '' @ r @ '' */ '' @ TrimRight t ''*'' @ ''::'', name, ''('', params, '') '']
               (p\<lparr>ctx := c\<lparr>receiver := r\<rparr> # rest\<rparr>)"
  have ne: "recv \<noteq> []" using assms(1) by (rule SplitN2_two_nonempty)
  have pf: "PrintFunc recv name params results p = Some p'"
    using assms ne by (simp add: PrintFunc_def upd_ctx_def Let_def p'_def)
  have top: "top_ctx p' = Some (c\<lparr>receiver := r\<rparr>)"
    by (simp add: top_ctx_def Fprint_def p'_def)
  have sel: "\<And>x. FormatSelector p' x sel True = (if x = r then ''this->'' @ sel else x @ ''.'' @ sel)"
    by (auto simp: FormatSelector_def top Selector_def)
  have later: "\<And>q x. PrintBlockStart b p' = Some q \<or> PrintStmt K stmt e p' = Some q \<Longrightarrow>
                 FormatSelector q x sel True = (if x = r then ''this->'' @ sel else x @ ''.'' @ sel)"
    using sel PrintBlockStart_receiver PrintStmt_receiver FormatSelector_receivers by metis
  show ?thesis
    using pf top sel later by (intro exI [of _ p']) simp
qed

theorem receiver_selector_witness:
  "SplitN2 ''T* r'' '' '' = [''T*'', ''r'']
   \<and> (\<exists>p'. PrintFunc ''T* r'' ''Get'' ''int i'' ''int'' (PushContext printer_example) = Some p'
          \<and> writer p' = ''int /* r */ T::Get(int i) ''
          \<and> FormatSelector p' ''r'' ''Field'' True = ''this->Field''
          \<and> FormatSelector p' ''r2'' ''Field'' True = ''r2.Field'')"
proof -
  have s: "SplitN2 ''T* r'' '' '' = [''T*'', ''r'']"
    by (simp add: SplitN2_def HasPrefix_def)
  have c: "ctx (PushContext printer_example) = new_CContext # []"
    by (simp add: PushContext_def printer_example_def)
  obtain p' where p': "PrintFunc ''T* r'' ''Get'' ''int i'' ''int'' (PushContext printer_example) = Some p'"
      and s1: "FormatSelector p' ''r'' ''Field'' True = ''this->'' @ ''Field''"
      and s2: "\<forall>x. x \<noteq> ''r'' \<longrightarrow> FormatSelector p' x ''Field'' True = x @ ''.'' @ ''Field''"
    using receiver_selector [OF s c, of "''Get''" "''int i''" "''int''" "''Field''"] by blast
  have w: "writer p' = ''int /* r */ T::Get(int i) ''"
    using p' s
    by (auto simp: PrintFunc_def upd_ctx_def PushContext_def printer_example_def Fprint_def
        IsMultiValue_def Contains_def HasPrefix_def TrimRight_def)
  from s2 have "FormatSelector p' ''r2'' ''Field'' True = ''r2.Field''" by simp
  with s p' s1 w show ?thesis by simp
qed

section \<open>Named results\<close>

lemma TrimRight_prefix: "\<exists>t. s = TrimRight s cutset @ t"
proof -
  have "rev s = takeWhile (\<lambda>c. c \<in> set cutset) (rev s) @ dropWhile (\<lambda>c. c \<in> set cutset) (rev s)"
    by simp
  then have "s = rev (dropWhile (\<lambda>c. c \<in> set cutset) (rev s)) @ rev (takeWhile (\<lambda>c. c \<in> set cutset) (rev s))"
    by (metis rev_append rev_rev_ident)
  then show ?thesis unfolding TrimRight_def by blast
qed

lemma Chop_array_names: "Chop K ''buf[], err, '' \<noteq> ''buf, err''"
proof
  assume a: "Chop K ''buf[], err, '' = ''buf, err''"
  obtain t where "''buf[], err, '' = TrimRight ''buf[], err, '' (COMMA K) @ t"
    using TrimRight_prefix by blast
  with a have "''buf[], err, '' = ''buf, err'' @ t" by (simp add: Chop_def)
  then show False by simp
qed

lemma FormatPair_array_result:
  "FormatPair K \<lparr>Name = ''buf'', Value = ''byte[]''\<rparr> RESULT p =
     Some (''byte /* buf[] */'' @ COMMA K,
           case ctx p of [] \<Rightarrow> p
           | c # rest \<Rightarrow> p\<lparr>ctx := c\<lparr>ret_definitions := ret_definitions c @ ''byte buf[];'',
                                      ret_values := ret_values c @ ''buf[], ''\<rparr> # rest\<rparr>)"
  by (cases "ctx p") (simp_all add: FormatPair_def HasSuffix_def HasPrefix_def LastIndex_def Let_def)

text \<open>
  Claim C4 at a function with the named results \<open>buf\<close> of slice type (announced with the
  type text \<open>byte[]\<close>, as \<^verbatim>\<open>FormatArray\<close> renders it) and \<open>err\<close> of type \<open>error\<close>, formatted
  in a fresh context, for every value of the terminator constants. The first code block
  prints the declarations \<open>byte buf[];error err;\<close> after its brace. \<^verbatim>\<open>FormatPair\<close> has moved
  the array suffix onto the name before recording it, so a return without values prints
  \<^verbatim>\<open>Chop\<close> of \<open>buf[], err, \<close>, which is a prefix of that text and never the names
  \<open>buf, err\<close>.
\<close>

theorem named_results_array:
  assumes "ctx p = new_CContext # rest" and "\<not> sameline p" and "0 \<le> level p"
  shows "\<exists>p1 p2 p3 p4.
           FormatPair K \<lparr>Name = ''buf'', Value = ''byte[]''\<rparr> RESULT p =
             Some (''byte /* buf[] */'' @ COMMA K, p1)
         \<and> FormatPair K \<lparr>Name = ''err'', Value = ''error''\<rparr> RESULT p1 =
             Some (''error /* err */'' @ COMMA K, p2)
         \<and> PrintBlockStart BT_CODE p2 = Some p3
         \<and> writer p3 = writer p @ spaces (level p) @ ''{\<newline>'' @
                         spaces (level p + 1) @ ''byte buf[];error err;\<newline>''
         \<and> PrintReturn K [] tuple p3 = Some p4
         \<and> writer p4 = writer p3 @ spaces (level p + 1) @ ''return '' @
                         (if tuple then ''make_tuple('' @ Chop K ''buf[], err, '' @ '')''
                          else Chop K ''buf[], err, '') @ SEMI K
         \<and> Chop K ''buf[], err, '' \<noteq> ''buf, err''"
proof -
  define c2 where "c2 = new_CContext\<lparr>ret_definitions := ''byte buf[];error err;'',
                                    ret_values := ''buf[], err, ''\<rparr>"
  define p1 where "p1 = p\<lparr>ctx := new_CContext\<lparr>ret_definitions := ''byte buf[];'',
                                                ret_values := ''buf[], ''\<rparr> # rest\<rparr>"
  define p2 where "p2 = p\<lparr>ctx := c2 # rest\<rparr>"
  define w3 where "w3 = writer p @ spaces (level p) @ ''{\<newline>'' @
                         spaces (level p + 1) @ ''byte buf[];error err;\<newline>''"
  define p3 where "p3 = p\<lparr>level := level p + 1, writer := w3, ctx := c2\<lparr>ret_definitions := []\<rparr> # rest\<rparr>"
  define r where "r = (if tuple then ''make_tuple('' @ Chop K ''buf[], err, '' @ '')''
                          else Chop K ''buf[], err, '')"
  define p4 where "p4 = p3\<lparr>writer := w3 @ spaces (level p + 1) @ ''return '' @ r @ SEMI K\<rparr>"
  have f1: "FormatPair K \<lparr>Name = ''buf'', Value = ''byte[]''\<rparr> RESULT p =
             Some (''byte /* buf[] */'' @ COMMA K, p1)"
    using assms(1) by (simp add: FormatPair_array_result p1_def new_CContext_def)
  have f2: "FormatPair K \<lparr>Name = ''err'', Value = ''error''\<rparr> RESULT p1 =
             Some (''error /* err */'' @ COMMA K, p2)"
    by (simp add: FormatPair_def HasSuffix_def HasPrefix_def p1_def p2_def c2_def)
  have b1: "PrintBlockStart BT_CODE p2 = Some p3"
    using assms(2,3)
    by (simp add: PrintBlockStart_def PrintLevel_ok UpdateLevel_def UP_def NL_def top_ctx_def
        upd_ctx_def p2_def p3_def c2_def w3_def)
  have r1: "PrintReturn K [] tuple p3 = Some p4"
    using assms(2,3)
    by (simp add: PrintReturn_def top_ctx_def p3_def c2_def PrintStmt_def PrintLevel_ok p4_def r_def)
  show ?thesis
    using f1 f2 b1 r1 Chop_array_names [of K]
    by (intro exI [of _ p1] exI [of _ p2] exI [of _ p3] exI [of _ p4])
       (simp add: p3_def p4_def w3_def r_def)
qed

theorem named_results_array_witness:
  "(do { (ra, p1) \<leftarrow> FormatPair decls_example \<lparr>Name = ''buf'', Value = ''byte[]''\<rparr> RESULT
                       (PushContext printer_example);
         (rb, p2) \<leftarrow> FormatPair decls_example \<lparr>Name = ''err'', Value = ''error''\<rparr> RESULT p1;
         p3 \<leftarrow> PrintBlockStart BT_CODE p2;
         p4 \<leftarrow> PrintReturn decls_example [] True p3;
         Some (ra, rb, writer p4) })
   = Some (''byte /* buf[] */, '', ''error /* err */, '',
           ''{\<newline>  byte buf[];error err;\<newline>  return make_tuple(buf[], err);\<newline>'')"
proof -
  have h: "ctx (PushContext printer_example) = new_CContext # []"
    "\<not> sameline (PushContext printer_example)" "0 \<le> level (PushContext printer_example)"
    by (simp_all add: PushContext_def printer_example_def)
  have ch: "Chop decls_example ''buf[], err, '' = ''buf[], err''"
    by (simp add: Chop_def TrimRight_def decls_example_def)
  obtain p1 p2 p3 p4 where
      "FormatPair decls_example \<lparr>Name = ''buf'', Value = ''byte[]''\<rparr> RESULT (PushContext printer_example)
         = Some (''byte /* buf[] */'' @ COMMA decls_example, p1)"
      "FormatPair decls_example \<lparr>Name = ''err'', Value = ''error''\<rparr> RESULT p1
         = Some (''error /* err */'' @ COMMA decls_example, p2)"
      "PrintBlockStart BT_CODE p2 = Some p3"
      "writer p3 = writer (PushContext printer_example) @ spaces (level (PushContext printer_example)) @
         ''{\<newline>'' @ spaces (level (PushContext printer_example) + 1) @ ''byte buf[];error err;\<newline>''"
      "PrintReturn decls_example [] True p3 = Some p4"
      "writer p4 = writer p3 @ spaces (level (PushContext printer_example) + 1) @ ''return '' @
          (if True then ''make_tuple('' @ Chop decls_example ''buf[], err, '' @ '')''
           else Chop decls_example ''buf[], err, '') @ SEMI decls_example"
    using named_results_array [OF h, where tuple = True and K = decls_example] by blast
  then show ?thesis
    unfolding ch by (simp add: spaces_def PushContext_def printer_example_def decls_example_def)
qed

end
